theory Spec2Isabelle
  imports Main "HOL-Library.Word"
begin

unbundle bit_operations_syntax

section \<open>wgkex worker: netlink handling of WireGuard peers (wgkex/worker/netlink.py)\<close>

text \<open>
  A shallow embedding of \<^verbatim>\<open>wgkex/worker/netlink.py\<close>. Pure code is a HOL function; code
  that can raise returns \<open>pyexc + 'a\<close> (\<open>Inl\<close> the exception); code that talks to the
  kernel through pyroute2 takes the kernel as a record of operations over a kernel state
  and passes a \<open>world\<close> along.
\<close>

subsection \<open>Python values\<close>

text \<open>
  A Python \<^verbatim>\<open>str\<close> is a sequence of Unicode code points and \<^verbatim>\<open>bytes\<close> a sequence of
  octets. \<open>lit\<close> writes a string literal of the source: its characters are ASCII.
\<close>

type_synonym pystr = "nat list"
type_synonym byte = "8 word"
type_synonym u32 = "32 word"

definition lit :: "string \<Rightarrow> pystr" where
  "lit s = map of_char s"

text \<open>
  The exceptions the code can meet. \<open>UnicodeEncodeError\<close>, \<open>UnicodeDecodeError\<close>,
  \<open>IndexError\<close> and \<open>AttributeError\<close> are raised by the statements of netlink.py
  themselves, \<open>ValueError\<close> by \<^verbatim>\<open>mac2eui64\<close>, \<open>NetlinkError\<close> (with the kernel's errno) by
  pyroute2. \<open>KernelInterfaceError\<close> is the error of the design document (subsystem and
  interface name); no statement of netlink.py raises it.
\<close>

datatype pyexc =
    UnicodeEncodeError
  | UnicodeDecodeError
  | ValueError
  | IndexError
  | AttributeError
  | NetlinkError int
  | KernelInterfaceError pystr pystr

definition is_KernelInterfaceError :: "pyexc \<Rightarrow> bool" where
  "is_KernelInterfaceError e = (case e of KernelInterfaceError subsystem ifname \<Rightarrow> True | _ \<Rightarrow> False)"

text \<open>\<^verbatim>\<open>s.encode("ascii")\<close>: the code points as octets, UnicodeEncodeError when one is
  not below 128.\<close>

definition encode_ascii :: "pystr \<Rightarrow> pyexc + byte list" where
  "encode_ascii s = (if list_all (\<lambda>c. c < 128) s then Inr (map of_nat s) else Inl UnicodeEncodeError)"

text \<open>The UTF-8 encoding of a text (the design document's reading of the key's bytes).\<close>

definition utf8_code_point :: "nat \<Rightarrow> nat list" where
  "utf8_code_point c =
     (if c < 0x80 then [c]
      else if c < 0x800 then [0xC0 + c div 64, 0x80 + c mod 64]
      else if c < 0x10000 then [0xE0 + c div 4096, 0x80 + (c div 64) mod 64, 0x80 + c mod 64]
      else [0xF0 + c div 262144, 0x80 + (c div 4096) mod 64, 0x80 + (c div 64) mod 64,
            0x80 + c mod 64])"

definition encode_utf8 :: "pystr \<Rightarrow> byte list" where
  "encode_utf8 s = map of_nat (concat (map utf8_code_point s))"

text \<open>\<^verbatim>\<open>b.decode("utf-8")\<close>, on the octets as numbers: \<open>None\<close> where Python raises
  UnicodeDecodeError (a stray or missing continuation octet, an overlong form, a
  surrogate, a code point above U+10FFFF).\<close>

definition continuation :: "nat \<Rightarrow> bool" where
  "continuation c = (0x80 \<le> c \<and> c \<le> 0xBF)"

fun utf8_decode :: "nat list \<Rightarrow> pystr option" where
  "utf8_decode [] = Some []"
| "utf8_decode (b # bs) =
     (if b < 0x80 then map_option ((#) b) (utf8_decode bs)
      else if 0xC2 \<le> b \<and> b \<le> 0xDF then
        (case bs of
           c1 # r \<Rightarrow>
             if continuation c1
             then map_option ((#) ((b - 0xC0) * 64 + (c1 - 0x80))) (utf8_decode r)
             else None
         | _ \<Rightarrow> None)
      else if 0xE0 \<le> b \<and> b \<le> 0xEF then
        (case bs of
           c1 # c2 # r \<Rightarrow>
             if (if b = 0xE0 then 0xA0 else 0x80) \<le> c1 \<and> c1 \<le> (if b = 0xED then 0x9F else 0xBF)
                \<and> continuation c2
             then map_option ((#) ((b - 0xE0) * 4096 + (c1 - 0x80) * 64 + (c2 - 0x80)))
                    (utf8_decode r)
             else None
         | _ \<Rightarrow> None)
      else if 0xF0 \<le> b \<and> b \<le> 0xF4 then
        (case bs of
           c1 # c2 # c3 # r \<Rightarrow>
             if (if b = 0xF0 then 0x90 else 0x80) \<le> c1 \<and> c1 \<le> (if b = 0xF4 then 0x8F else 0xBF)
                \<and> continuation c2 \<and> continuation c3
             then map_option
                    ((#) ((b - 0xF0) * 262144 + (c1 - 0x80) * 4096 + (c2 - 0x80) * 64 + (c3 - 0x80)))
                    (utf8_decode r)
             else None
         | _ \<Rightarrow> None)
      else None)"

definition decode_utf8 :: "byte list \<Rightarrow> pyexc + pystr" where
  "decode_utf8 bs = (case utf8_decode (map unat bs) of None \<Rightarrow> Inl UnicodeDecodeError | Some s \<Rightarrow> Inr s)"

text \<open>\<^verbatim>\<open>sep.join(parts)\<close>.\<close>

fun join :: "pystr \<Rightarrow> pystr list \<Rightarrow> pystr" where
  "join sep [] = []"
| "join sep [x] = x"
| "join sep (x # y # ys) = x @ sep @ join sep (y # ys)"

text \<open>
  \<^verbatim>\<open>textwrap.wrap(text, width)\<close> for a text without white space and without hyphen, as
  every hexdigest is: the one long word is broken every \<open>width\<close> characters.
\<close>

fun wrap :: "pystr \<Rightarrow> nat \<Rightarrow> pystr list" where
  "wrap [] width = []"
| "wrap (c # cs) width =
     (if width = 0 then [] else take width (c # cs) # wrap (drop width (c # cs)) width)"

text \<open>Lower-case hexadecimal and decimal digits, and numbers written without leading
  zeros (\<^verbatim>\<open>'%x' % n\<close>, \<^verbatim>\<open>str(n)\<close>).\<close>

definition hexdigit :: "nat \<Rightarrow> nat" where
  "hexdigit n = (if n < 10 then 48 + n else 87 + n)"

fun hex :: "nat \<Rightarrow> pystr" where
  "hex n = (if n < 16 then [hexdigit n] else hex (n div 16) @ [hexdigit (n mod 16)])"

fun decimal :: "nat \<Rightarrow> pystr" where
  "decimal n = (if n < 10 then [48 + n] else decimal (n div 10) @ [48 + n mod 10])"

definition is_digit :: "nat \<Rightarrow> bool" where
  "is_digit c = (48 \<le> c \<and> c \<le> 57)"

text \<open>
  \<^verbatim>\<open>re.sub(r"/\d+$", repl, s)\<close>: the leftmost \<open>/\<close> that is followed by one or more
  digits and then the end of the text (\<open>$\<close> also matches before one final newline) is
  replaced, with its digits, by \<open>repl\<close>. After a match only the end is left, so there is
  at most one. The digits are 0 to 9: the texts this is applied to are addresses and
  hold no character from U+0080 on, where Python's \<^verbatim>\<open>\d\<close> knows further digits.
\<close>

fun re_sub_prefixlen :: "pystr \<Rightarrow> pystr \<Rightarrow> pystr" where
  "re_sub_prefixlen repl [] = []"
| "re_sub_prefixlen repl (c # cs) =
     (if c = 47 \<and> takeWhile is_digit cs \<noteq> []
         \<and> (dropWhile is_digit cs = [] \<or> dropWhile is_digit cs = [10])
      then repl @ dropWhile is_digit cs
      else c # re_sub_prefixlen repl cs)"

subsection \<open>hashlib.md5\<close>

text \<open>MD5 as RFC 1321 defines it: \<^verbatim>\<open>hashlib.md5()\<close>, \<^verbatim>\<open>update\<close> and \<^verbatim>\<open>hexdigest\<close>.\<close>

definition md5_K :: "u32 list" where
  "md5_K =
    [0xd76aa478, 0xe8c7b756, 0x242070db, 0xc1bdceee, 0xf57c0faf, 0x4787c62a, 0xa8304613, 0xfd469501,
     0x698098d8, 0x8b44f7af, 0xffff5bb1, 0x895cd7be, 0x6b901122, 0xfd987193, 0xa679438e, 0x49b40821,
     0xf61e2562, 0xc040b340, 0x265e5a51, 0xe9b6c7aa, 0xd62f105d, 0x02441453, 0xd8a1e681, 0xe7d3fbc8,
     0x21e1cde6, 0xc33707d6, 0xf4d50d87, 0x455a14ed, 0xa9e3e905, 0xfcefa3f8, 0x676f02d9, 0x8d2a4c8a,
     0xfffa3942, 0x8771f681, 0x6d9d6122, 0xfde5380c, 0xa4beea44, 0x4bdecfa9, 0xf6bb4b60, 0xbebfbc70,
     0x289b7ec6, 0xeaa127fa, 0xd4ef3085, 0x04881d05, 0xd9d4d039, 0xe6db99e5, 0x1fa27cf8, 0xc4ac5665,
     0xf4292244, 0x432aff97, 0xab9423a7, 0xfc93a039, 0x655b59c3, 0x8f0ccc92, 0xffeff47d, 0x85845dd1,
     0x6fa87e4f, 0xfe2ce6e0, 0xa3014314, 0x4e0811a1, 0xf7537e82, 0xbd3af235, 0x2ad7d2bb, 0xeb86d391]"

definition md5_s :: "nat list" where
  "md5_s =
    [7, 12, 17, 22, 7, 12, 17, 22, 7, 12, 17, 22, 7, 12, 17, 22,
     5, 9, 14, 20, 5, 9, 14, 20, 5, 9, 14, 20, 5, 9, 14, 20,
     4, 11, 16, 23, 4, 11, 16, 23, 4, 11, 16, 23, 4, 11, 16, 23,
     6, 10, 15, 21, 6, 10, 15, 21, 6, 10, 15, 21, 6, 10, 15, 21]"

definition rotl32 :: "nat \<Rightarrow> u32 \<Rightarrow> u32" where
  "rotl32 n x = push_bit n x OR drop_bit (32 - n) x"

definition le_word :: "byte list \<Rightarrow> u32" where
  "le_word bs = foldr (\<lambda>b acc. ucast b OR push_bit 8 acc) bs 0"

definition word_le_bytes :: "u32 \<Rightarrow> byte list" where
  "word_le_bytes w = [ucast w, ucast (drop_bit 8 w), ucast (drop_bit 16 w), ucast (drop_bit 24 w)]"

fun chunks :: "nat \<Rightarrow> 'a list \<Rightarrow> 'a list list" where
  "chunks n [] = []"
| "chunks n (x # xs) = (if n = 0 then [] else take n (x # xs) # chunks n (drop n (x # xs)))"

definition md5_pad :: "byte list \<Rightarrow> byte list" where
  "md5_pad m =
     m @ [0x80] @ replicate ((119 - length m mod 64) mod 64) 0
       @ map (\<lambda>i. ucast (drop_bit (8 * i) (word_of_nat (8 * length m) :: 64 word))) [0..<8]"

definition md5_round ::
  "u32 list \<Rightarrow> u32 \<times> u32 \<times> u32 \<times> u32 \<Rightarrow> nat \<Rightarrow> u32 \<times> u32 \<times> u32 \<times> u32" where
  "md5_round M st i =
     (case st of (A, B, C, D) \<Rightarrow>
        let (F, g) =
              (if i < 16 then ((B AND C) OR (NOT B AND D), i)
               else if i < 32 then ((D AND B) OR (NOT D AND C), (5 * i + 1) mod 16)
               else if i < 48 then (B XOR C XOR D, (3 * i + 5) mod 16)
               else (C XOR (B OR NOT D), (7 * i) mod 16));
            F' = F + A + md5_K ! i + M ! g
        in (D, B + rotl32 (md5_s ! i) F', B, C))"

definition md5_block :: "u32 \<times> u32 \<times> u32 \<times> u32 \<Rightarrow> byte list \<Rightarrow> u32 \<times> u32 \<times> u32 \<times> u32" where
  "md5_block st blk =
     (case st of (a0, b0, c0, d0) \<Rightarrow>
        case foldl (md5_round (map le_word (chunks 4 blk))) st [0..<64] of
          (A, B, C, D) \<Rightarrow> (a0 + A, b0 + B, c0 + C, d0 + D))"

definition md5 :: "byte list \<Rightarrow> byte list" where
  "md5 m =
     (case foldl md5_block (0x67452301, 0xefcdab89, 0x98badcfe, 0x10325476) (chunks 64 (md5_pad m)) of
        (a, b, c, d) \<Rightarrow> word_le_bytes a @ word_le_bytes b @ word_le_bytes c @ word_le_bytes d)"

definition hexdigest :: "byte list \<Rightarrow> pystr" where
  "hexdigest bs = concat (map (\<lambda>b. [hexdigit (unat b div 16), hexdigit (unat b mod 16)]) bs)"

subsection \<open>wgkex.common.utils.mac2eui64\<close>

text \<open>A text cut at every occurrence of a separator character (\<^verbatim>\<open>s.split(sep)\<close>).\<close>

fun split :: "nat \<Rightarrow> pystr \<Rightarrow> pystr list" where
  "split sep [] = [[]]"
| "split sep (c # cs) =
     (if c = sep then [] # split sep cs
      else (case split sep cs of [] \<Rightarrow> [[c]] | x # xs \<Rightarrow> (c # x) # xs))"

definition unhexdigit :: "nat \<Rightarrow> nat option" where
  "unhexdigit c =
     (if 48 \<le> c \<and> c \<le> 57 then Some (c - 48)
      else if 97 \<le> c \<and> c \<le> 102 then Some (c - 87)
      else if 65 \<le> c \<and> c \<le> 70 then Some (c - 55)
      else None)"

definition parse_octet :: "pystr \<Rightarrow> nat option" where
  "parse_octet s =
     (case s of
        [a, b] \<Rightarrow> (case (unhexdigit a, unhexdigit b) of (Some x, Some y) \<Rightarrow> Some (16 * x + y) | _ \<Rightarrow> None)
      | _ \<Rightarrow> None)"

text \<open>A hardware address \<^verbatim>\<open>aa:bb:cc:dd:ee:ff\<close> as its six octets.\<close>

definition parse_mac :: "pystr \<Rightarrow> nat list option" where
  "parse_mac mac =
     (case those (map parse_octet (split 58 mac)) of
        Some octets \<Rightarrow> if length octets = 6 then Some octets else None
      | None \<Rightarrow> None)"

text \<open>
  The modified EUI-64 interface identifier of a six-octet address, as four groups of 16
  bits: \<open>ff:fe\<close> goes between the third and the fourth octet and the
  locally-administered bit (2) of the first octet is set, so that the leading \<open>02\<close> of
  the addresses built by \<open>lladdr\<close> stays \<open>02\<close>.
\<close>

definition eui64 :: "nat list \<Rightarrow> nat list" where
  "eui64 octets =
     (case octets of
        [a, b, c, d, e, f] \<Rightarrow> [256 * (a OR 2) + b, 256 * c + 0xff, 0xfe00 + d, 256 * e + f]
      | _ \<Rightarrow> [])"

text \<open>
  The text of an IPv6 address given as its eight groups: each group in hexadecimal
  without leading zeros, the groups joined by colons, and the longest run of two or more
  zero groups (the first of them when several are as long) written \<open>::\<close>.
\<close>

fun zero_scan :: "nat list \<Rightarrow> nat \<Rightarrow> nat \<Rightarrow> nat \<times> nat \<Rightarrow> nat \<times> nat" where
  "zero_scan [] i cur best = best"
| "zero_scan (h # hs) i cur best =
     (if h = 0
      then zero_scan hs (i + 1) (cur + 1) (if cur + 1 > snd best then (i - cur, cur + 1) else best)
      else zero_scan hs (i + 1) 0 best)"

definition ipv6_text :: "nat list \<Rightarrow> pystr" where
  "ipv6_text groups =
     (case zero_scan groups 0 0 (0, 0) of
        (start, len) \<Rightarrow>
          if len > 1
          then join (lit '':'') (map hex (take start groups)) @ lit ''::''
               @ join (lit '':'') (map hex (drop (start + len) groups))
          else join (lit '':'') (map hex groups))"

record ip_network =
  network_address :: "nat list"
  prefixlen :: nat

text \<open>The network that the literal \<^verbatim>\<open>"fe80::/10"\<close> denotes.\<close>

definition fe80_slash_10 :: ip_network where
  "fe80_slash_10 = \<lparr>network_address = [0xfe80, 0, 0, 0, 0, 0, 0, 0], prefixlen = 10\<rparr>"

text \<open>
  Modelled from the spec: \<^verbatim>\<open>mac2eui64(mac, prefix)\<close> of \<^verbatim>\<open>wgkex.common.utils\<close>, which
  \<open>lladdr\<close> imports and which is not among the sources at hand. The design document's
  step 4 of the address derivation: the six-octet address is expanded into its 64-bit
  modified EUI-64 interface identifier and combined with the prefix (the upper 64 bits
  of the address are the prefix's, the lower 64 the identifier) into a full IPv6 address;
  step 5 speaks of the prefix length produced by this step, so the result is the
  address's text, a slash and the prefix length of the prefix. An address that is not six
  octets in hexadecimal is refused (ValueError).
\<close>

definition mac2eui64 :: "pystr \<Rightarrow> ip_network \<Rightarrow> pyexc + pystr" where
  "mac2eui64 mac prefix =
     (case parse_mac mac of
        None \<Rightarrow> Inl ValueError
      | Some octets \<Rightarrow>
          Inr (ipv6_text (take 4 (network_address prefix) @ eui64 octets)
               @ lit ''/'' @ decimal (prefixlen prefix)))"

subsection \<open>WireGuardClient\<close>

definition PEER_TIMEOUT_HOURS :: int where
  "PEER_TIMEOUT_HOURS = 3"

record WireGuardClient =
  public_key :: pystr
  domain :: pystr
  remove :: bool

text \<open>The property \<^verbatim>\<open>lladdr\<close> (netlink.py, lines 31 to 46).\<close>

definition lladdr :: "WireGuardClient \<Rightarrow> pyexc + pystr" where
  "lladdr self =
     (case encode_ascii (public_key self) of
        Inl e \<Rightarrow> Inl e
      | Inr key_bytes \<Rightarrow>
          let hashed_key = hexdigest (md5 (key_bytes @ [0x0A]));
              hash_as_list = wrap hashed_key 2;
              current_mac_addr = join (lit '':'') (lit ''02'' # take 5 hash_as_list)
          in (case mac2eui64 current_mac_addr fe80_slash_10 of
                Inl e \<Rightarrow> Inl e
              | Inr address \<Rightarrow> Inr (re_sub_prefixlen (lit ''/128'') address)))"

definition vx_interface :: "WireGuardClient \<Rightarrow> pystr" where
  "vx_interface self = lit ''vx-'' @ domain self"

definition wg_interface :: "WireGuardClient \<Rightarrow> pystr" where
  "wg_interface self = lit ''wg-'' @ domain self"

text \<open>
  The address derivation as the design document words it (section 4.1): the hash of the
  key's UTF-8 bytes and a newline; its octets; the six-octet address \<open>02\<close>, octet 0 to
  octet 4; its modified EUI-64 identifier under \<open>fe80::/10\<close>; the prefix length forced
  to 128.
\<close>

definition deriveLinkLocalAddress :: "pystr \<Rightarrow> pystr" where
  "deriveLinkLocalAddress publicKey =
     (let hash = md5 (encode_utf8 publicKey @ [0x0A]);
          octet = map unat hash;
          hardware_address = 2 # take 5 octet;
          address = take 4 (network_address fe80_slash_10) @ eui64 hardware_address
      in ipv6_text address @ lit ''/'' @ decimal 128)"

subsection \<open>The kernel, as pyroute2 shows it\<close>

text \<open>
  What \<^verbatim>\<open>wg.info\<close> returns: a list of messages, each with an optional attribute
  \<^verbatim>\<open>WGDEVICE_A_PEERS\<close>, a list of peers; \<^verbatim>\<open>get_attr\<close> gives \<open>None\<close> for an attribute
  that is absent. A peer's key is \<^verbatim>\<open>bytes\<close>, its last handshake a dictionary of numbers
  (\<^verbatim>\<open>tv_sec\<close>, \<^verbatim>\<open>tv_nsec\<close>).
\<close>

datatype wgpeer =
  WGPeer (WGPEER_A_PUBLIC_KEY: "byte list option")
         (WGPEER_A_LAST_HANDSHAKE_TIME: "(pystr \<rightharpoonup> int) option")

datatype wgdevice = WGDevice (WGDEVICE_A_PEERS: "wgpeer list option")

text \<open>The dictionary that \<open>update_wireguard_peer\<close> passes as \<^verbatim>\<open>peer=\<close>.\<close>

record wg_peer_dict =
  peer_public_key :: pystr
  peer_allowed_ips :: "pystr list"
  peer_remove :: bool

text \<open>
  The calls netlink.py makes on pyroute2, over a kernel state \<open>'k\<close>; each returns its
  result, of type \<open>'r\<close> for the netlink replies the code passes on unread, or the
  exception pyroute2 raises, and the kernel state after it.
  \<^item> \<open>wg_set ifname peer\<close> is \<^verbatim>\<open>WireGuard().set(ifname, peer=peer)\<close>;
  \<^item> \<open>wg_info ifname\<close> is \<^verbatim>\<open>WireGuard().info(ifname)\<close>;
  \<^item> \<open>link_lookup ifname\<close> is \<^verbatim>\<open>IPRoute().link_lookup(ifname=ifname)\<close>, the list of the
    indices of the interfaces of that name;
  \<^item> \<open>ip_route command dst oif\<close> is \<^verbatim>\<open>IPRoute().route(command, dst=dst, oif=oif)\<close>;
  \<^item> \<open>ip_fdb command ifindex lladdr dst nda_ifindex\<close> is \<^verbatim>\<open>IPRoute().fdb(...)\<close>.
\<close>

record ('k, 'r) kernel =
  wg_set :: "pystr \<Rightarrow> wg_peer_dict \<Rightarrow> 'k \<Rightarrow> (pyexc + 'r) \<times> 'k"
  wg_info :: "pystr \<Rightarrow> 'k \<Rightarrow> (pyexc + wgdevice list) \<times> 'k"
  link_lookup :: "pystr \<Rightarrow> 'k \<Rightarrow> (pyexc + nat list) \<times> 'k"
  ip_route :: "pystr \<Rightarrow> pystr \<Rightarrow> nat \<Rightarrow> 'k \<Rightarrow> (pyexc + 'r) \<times> 'k"
  ip_fdb :: "pystr \<Rightarrow> nat \<Rightarrow> pystr \<Rightarrow> pystr \<Rightarrow> nat \<Rightarrow> 'k \<Rightarrow> (pyexc + 'r) \<times> 'k"

text \<open>
  The world a call runs in: the kernel's state and, as a ghost, the list of the adapter
  functions entered so far with their argument (what the call list of a test double
  would hold).
\<close>

datatype adapter = Update_wireguard_peer | Route_handler | Bridge_fdb_handler

record 'k world =
  kernel_state :: 'k
  adapter_calls :: "(adapter \<times> WireGuardClient) list"

definition enter :: "adapter \<Rightarrow> WireGuardClient \<Rightarrow> 'k world \<Rightarrow> 'k world" where
  "enter a client w = w\<lparr>adapter_calls := adapter_calls w @ [(a, client)]\<rparr>"

definition kcall :: "('k \<Rightarrow> 'a \<times> 'k) \<Rightarrow> 'k world \<Rightarrow> 'a \<times> 'k world" where
  "kcall f w = (case f (kernel_state w) of (r, k) \<Rightarrow> (r, w\<lparr>kernel_state := k\<rparr>))"

subsection \<open>The adapters (netlink.py, lines 114 to 175)\<close>

text \<open>
  Arguments are evaluated from left to right, so \<open>lladdr\<close> can raise before the kernel is
  asked anything, and \<^verbatim>\<open>link_lookup(...)[0]\<close> raises IndexError on an empty list.
\<close>

definition update_wireguard_peer ::
  "('k, 'r) kernel \<Rightarrow> WireGuardClient \<Rightarrow> 'k world \<Rightarrow> (pyexc + 'r) \<times> 'k world" where
  "update_wireguard_peer K client w0 =
     (let w = enter Update_wireguard_peer client w0 in
      case lladdr client of
        Inl e \<Rightarrow> (Inl e, w)
      | Inr address \<Rightarrow>
          kcall (wg_set K (wg_interface client)
                   \<lparr>peer_public_key = public_key client, peer_allowed_ips = [address],
                    peer_remove = remove client\<rparr>) w)"

definition route_handler ::
  "('k, 'r) kernel \<Rightarrow> WireGuardClient \<Rightarrow> 'k world \<Rightarrow> (pyexc + 'r) \<times> 'k world" where
  "route_handler K client w0 =
     (let w = enter Route_handler client w0 in
      case lladdr client of
        Inl e \<Rightarrow> (Inl e, w)
      | Inr dst \<Rightarrow>
          (case kcall (link_lookup K (wg_interface client)) w of
             (Inl e, w1) \<Rightarrow> (Inl e, w1)
           | (Inr [], w1) \<Rightarrow> (Inl IndexError, w1)
           | (Inr (oif # _), w1) \<Rightarrow>
               kcall (ip_route K (if remove client then lit ''del'' else lit ''replace'') dst oif) w1))"

definition bridge_fdb_handler ::
  "('k, 'r) kernel \<Rightarrow> WireGuardClient \<Rightarrow> 'k world \<Rightarrow> (pyexc + 'r) \<times> 'k world" where
  "bridge_fdb_handler K client w0 =
     (let w = enter Bridge_fdb_handler client w0 in
      case kcall (link_lookup K (vx_interface client)) w of
        (Inl e, w1) \<Rightarrow> (Inl e, w1)
      | (Inr [], w1) \<Rightarrow> (Inl IndexError, w1)
      | (Inr (ifindex # _), w1) \<Rightarrow>
          (case lladdr client of
             Inl e \<Rightarrow> (Inl e, w1)
           | Inr address \<Rightarrow>
               (case kcall (link_lookup K (wg_interface client)) w1 of
                  (Inl e, w2) \<Rightarrow> (Inl e, w2)
                | (Inr [], w2) \<Rightarrow> (Inl IndexError, w2)
                | (Inr (nda_ifindex # _), w2) \<Rightarrow>
                    kcall (ip_fdb K (if remove client then lit ''del'' else lit ''append'') ifindex
                             (lit ''00:00:00:00:00:00'') (re_sub_prefixlen [] address) nda_ifindex)
                      w2)))"

subsection \<open>link_handler (netlink.py, lines 88 to 111)\<close>

text \<open>
  The values of the outcome dictionary: what an adapter returned, or, under
  \<^verbatim>\<open>"Route"\<close>, the exception that was caught. \<^verbatim>\<open>except Exception\<close> catches every
  exception of \<open>pyexc\<close>. A dictionary keeps its keys in the order of their first
  insertion.
\<close>

datatype 'r outcome = Returned 'r | Caught pyexc

fun dict_update :: "'a \<Rightarrow> 'b \<Rightarrow> ('a \<times> 'b) list \<Rightarrow> ('a \<times> 'b) list" where
  "dict_update k v [] = [(k, v)]"
| "dict_update k v ((k', v') # d) =
     (if k' = k then (k, v) # d else (k', v') # dict_update k v d)"

definition link_handler ::
  "('k, 'r) kernel \<Rightarrow> WireGuardClient \<Rightarrow> 'k world
     \<Rightarrow> (pyexc + (pystr \<times> 'r outcome) list) \<times> 'k world" where
  "link_handler K client w =
     (case update_wireguard_peer K client w of
        (Inl e, w1) \<Rightarrow> (Inl e, w1)
      | (Inr r1, w1) \<Rightarrow>
          let results1 = dict_update (lit ''Wireguard'') (Returned r1) [] in
          (case route_handler K client w1 of
             (route, w2) \<Rightarrow>
               let results2 =
                     (case route of
                        Inr r2 \<Rightarrow> dict_update (lit ''Route'') (Returned r2) results1
                      | Inl e \<Rightarrow> dict_update (lit ''Route'') (Caught e) results1)
               in (case bridge_fdb_handler K client w2 of
                     (Inl e, w3) \<Rightarrow> (Inl e, w3)
                   | (Inr r3, w3) \<Rightarrow>
                       (Inr (dict_update (lit ''Bridge FDB'') (Returned r3) results2), w3))))"

subsection \<open>find_stale_wireguard_clients (netlink.py, lines 178 to 208)\<close>

text \<open>
  The clock is an argument: \<open>now\<close> is what \<^verbatim>\<open>datetime.now()\<close> reads, in microseconds
  since the epoch. \<^verbatim>\<open>int(...timestamp())\<close> drops the fraction of a second, towards zero.
\<close>

definition three_hrs_in_secs :: "int \<Rightarrow> int" where
  "three_hrs_in_secs now =
     (let t = now - PEER_TIMEOUT_HOURS * 3600 * 1000000
      in if 0 \<le> t then t div 1000000 else - ((- t) div 1000000))"

text \<open>The loop over the messages: the peers of every message that has some.\<close>

fun all_clients :: "wgdevice list \<Rightarrow> wgpeer list" where
  "all_clients [] = []"
| "all_clients (peer # peers_on_interface) =
     (case WGDEVICE_A_PEERS peer of
        None \<Rightarrow> all_clients peers_on_interface
      | Some clients \<Rightarrow>
          if clients \<noteq> [] then clients @ all_clients peers_on_interface
          else all_clients peers_on_interface)"

text \<open>
  The list comprehension: for each client in order, first the condition, then, when it
  holds, the element. \<^verbatim>\<open>get_attr\<close> gives \<open>None\<close> for an absent attribute, and calling
  \<^verbatim>\<open>.get\<close> or \<^verbatim>\<open>.decode\<close> on \<open>None\<close> raises AttributeError.
\<close>

definition dict_get :: "('a \<rightharpoonup> 'b) \<Rightarrow> 'a \<Rightarrow> 'b \<Rightarrow> 'b" where
  "dict_get d k dflt = (case d k of None \<Rightarrow> dflt | Some v \<Rightarrow> v)"

fun stale_keys :: "int \<Rightarrow> wgpeer list \<Rightarrow> pyexc + pystr list" where
  "stale_keys cutoff [] = Inr []"
| "stale_keys cutoff (client # clients) =
     (case WGPEER_A_LAST_HANDSHAKE_TIME client of
        None \<Rightarrow> Inl AttributeError
      | Some handshake \<Rightarrow>
          if dict_get handshake (lit ''tv_sec'') 0 < cutoff
          then (case WGPEER_A_PUBLIC_KEY client of
                  None \<Rightarrow> Inl AttributeError
                | Some key \<Rightarrow>
                    (case decode_utf8 key of
                       Inl e \<Rightarrow> Inl e
                     | Inr text \<Rightarrow>
                         (case stale_keys cutoff clients of
                            Inl e \<Rightarrow> Inl e
                          | Inr keys \<Rightarrow> Inr (text # keys))))
          else stale_keys cutoff clients)"

definition find_stale_wireguard_clients ::
  "('k, 'r) kernel \<Rightarrow> int \<Rightarrow> pystr \<Rightarrow> 'k world \<Rightarrow> (pyexc + pystr list) \<times> 'k world" where
  "find_stale_wireguard_clients K now ifname w =
     (case kcall (wg_info K ifname) w of
        (Inl e, w1) \<Rightarrow> (Inl e, w1)
      | (Inr peers_on_interface, w1) \<Rightarrow>
          (stale_keys (three_hrs_in_secs now) (all_clients peers_on_interface), w1))"

subsection \<open>wg_flush_stale_peers (netlink.py, lines 59 to 84)\<close>

text \<open>The comprehension \<^verbatim>\<open>[link_handler(c) for c in stale_wireguard_clients]\<close>: an
  exception raised for one client ends it.\<close>

fun link_handled ::
  "('k, 'r) kernel \<Rightarrow> WireGuardClient list \<Rightarrow> 'k world
     \<Rightarrow> (pyexc + (pystr \<times> 'r outcome) list list) \<times> 'k world" where
  "link_handled K [] w = (Inr [], w)"
| "link_handled K (stale_client # rest) w =
     (case link_handler K stale_client w of
        (Inl e, w1) \<Rightarrow> (Inl e, w1)
      | (Inr results, w1) \<Rightarrow>
          (case link_handled K rest w1 of
             (Inl e, w2) \<Rightarrow> (Inl e, w2)
           | (Inr handled, w2) \<Rightarrow> (Inr (results # handled), w2)))"

definition wg_flush_stale_peers ::
  "('k, 'r) kernel \<Rightarrow> int \<Rightarrow> pystr \<Rightarrow> 'k world
     \<Rightarrow> (pyexc + (pystr \<times> 'r outcome) list list) \<times> 'k world" where
  "wg_flush_stale_peers K now domain_name w =
     (case find_stale_wireguard_clients K now (lit ''wg-'' @ domain_name) w of
        (Inl e, w1) \<Rightarrow> (Inl e, w1)
      | (Inr stale_clients, w1) \<Rightarrow>
          link_handled K
            (map (\<lambda>stale_client. \<lparr>public_key = stale_client, domain = domain_name, remove = True\<rparr>)
               stale_clients)
            w1)"

subsection \<open>A kernel double for the examples\<close>

text \<open>
  A kernel that records the requests it receives. It knows the interfaces \<open>links\<close> (name
  and index) and the WireGuard devices \<open>devices\<close> (name and what \<open>wg_info\<close> reports);
  it refuses to set a peer whose key is in \<open>refused\<close> (EINVAL) or on a device that does
  not exist (ENODEV), and refuses every route change when \<open>no_route\<close> holds (ESRCH).
\<close>

datatype request =
    Wg_set pystr wg_peer_dict
  | Wg_info pystr
  | Link_lookup pystr
  | Ip_route pystr pystr nat
  | Ip_fdb pystr nat pystr pystr nat

definition double ::
  "(pystr \<times> nat) list \<Rightarrow> (pystr \<times> wgdevice list) list \<Rightarrow> pystr list \<Rightarrow> bool
     \<Rightarrow> (request list, unit) kernel" where
  "double links devices refused no_route =
     \<lparr>wg_set = (\<lambda>ifname peer k.
         (if map_of devices ifname = None then Inl (NetlinkError 19)
          else if peer_public_key peer \<in> set refused then Inl (NetlinkError 22)
          else Inr (),
          k @ [Wg_set ifname peer])),
      wg_info = (\<lambda>ifname k.
         (case map_of devices ifname of None \<Rightarrow> Inl (NetlinkError 19) | Some msgs \<Rightarrow> Inr msgs,
          k @ [Wg_info ifname])),
      link_lookup = (\<lambda>ifname k.
         (Inr (case map_of links ifname of None \<Rightarrow> [] | Some i \<Rightarrow> [i]), k @ [Link_lookup ifname])),
      ip_route = (\<lambda>command dst oif k.
         (if no_route then Inl (NetlinkError 3) else Inr (), k @ [Ip_route command dst oif])),
      ip_fdb = (\<lambda>command ifindex mac dst nda_ifindex k.
         (Inr (), k @ [Ip_fdb command ifindex mac dst nda_ifindex]))\<rparr>"

definition world0 :: "request list world" where
  "world0 = \<lparr>kernel_state = [], adapter_calls = []\<rparr>"

subsection \<open>Names for the proofs\<close>

text \<open>The two hexadecimal digits of an octet, and the address text that \<open>lladdr\<close>
  produces, without its prefix length, from the MD5 digest \<open>h\<close>.\<close>

definition hex2 :: "byte \<Rightarrow> pystr" where
  "hex2 b = [hexdigit (unat b div 16), hexdigit (unat b mod 16)]"

definition link_local_text :: "byte list \<Rightarrow> pystr" where
  "link_local_text h =
     lit ''fe80::'' @ hex (512 + unat (h ! 0)) @ lit '':'' @ hex (256 * unat (h ! 1) + 255) @ lit '':''
       @ hex (65024 + unat (h ! 2)) @ lit '':'' @ hex (256 * unat (h ! 3) + unat (h ! 4))"

definition ascii :: "pystr \<Rightarrow> bool" where
  "ascii s = list_all (\<lambda>c. c < 128) s"

section \<open>Facts about the address derivation\<close>

declare hex.simps [simp del] decimal.simps [simp del] wrap.simps [simp del]
  re_sub_prefixlen.simps [simp del] split.simps [simp del] chunks.simps [simp del]

lemma hexdigest_Cons: "hexdigest (b # bs) = hex2 b @ hexdigest bs"
  by (simp add: hexdigest_def hex2_def)

lemma wrap_hexdigest: "wrap (hexdigest bs) 2 = map hex2 bs"
proof (induction bs)
  case Nil
  show ?case by (simp add: hexdigest_def wrap.simps)
next
  case (Cons b bs)
  have "wrap (hexdigest (b # bs)) 2 = hex2 b # wrap (hexdigest bs) 2"
    by (simp add: hexdigest_Cons hex2_def wrap.simps)
  then show ?case using Cons by simp
qed

lemma unhexdigit_hexdigit: "n < 16 \<Longrightarrow> unhexdigit (hexdigit n) = Some n"
  by (auto simp: unhexdigit_def hexdigit_def)

lemma parse_octet_hex2: "parse_octet (hex2 b) = Some (unat b)"
proof -
  have "unat b div 16 < 16"
    using unsigned_less [of b, where ?'a = nat] by (simp add: less_mult_imp_div_less)
  then show ?thesis
    by (simp add: parse_octet_def hex2_def unhexdigit_hexdigit)
qed

lemma hexdigit_not_colon: "hexdigit n \<noteq> 58"
  by (simp add: hexdigit_def)

lemma hexdigit_not_slash: "hexdigit n \<noteq> 47"
  by (simp add: hexdigit_def)

lemma hex2_no_colon: "58 \<notin> set (hex2 b)"
  using hexdigit_not_colon [of "unat b div 16"] hexdigit_not_colon [of "unat b mod 16"]
  by (auto simp: hex2_def)

lemma hex_no_colon: "58 \<notin> set (hex n)"
proof (induction n rule: hex.induct)
  case (1 n)
  then show ?case
    using hexdigit_not_colon [of n] hexdigit_not_colon [of "n mod 16"]
    by (subst hex.simps) auto
qed

lemma hex_no_slash: "47 \<notin> set (hex n)"
proof (induction n rule: hex.induct)
  case (1 n)
  then show ?case
    using hexdigit_not_slash [of n] hexdigit_not_slash [of "n mod 16"]
    by (subst hex.simps) auto
qed

lemma split_no_sep: "sep \<notin> set a \<Longrightarrow> split sep (a @ sep # rest) = a # split sep rest"
  by (induction a) (auto simp: split.simps split: list.splits)

lemma split_last: "sep \<notin> set a \<Longrightarrow> split sep a = [a]"
  by (induction a) (auto simp: split.simps split: list.splits)

lemma parse_mac_joined:
  "parse_mac (join (lit '':'') (lit ''02'' # [hex2 b0, hex2 b1, hex2 b2, hex2 b3, hex2 b4]))
   = Some [2, unat b0, unat b1, unat b2, unat b3, unat b4]"
proof -
  have c: "lit '':'' = [58]" by (simp add: lit_def)
  have z: "58 \<notin> set (lit ''02'')" by (simp add: lit_def)
  have p: "parse_octet (lit ''02'') = Some 2"
    by (simp add: lit_def parse_octet_def unhexdigit_def)
  have "split 58 (join (lit '':'') (lit ''02'' # [hex2 b0, hex2 b1, hex2 b2, hex2 b3, hex2 b4]))
        = [lit ''02'', hex2 b0, hex2 b1, hex2 b2, hex2 b3, hex2 b4]"
    by (simp add: c split_no_sep split_last z hex2_no_colon)
  then show ?thesis
    by (simp add: parse_mac_def p parse_octet_hex2)
qed

lemma decimal_small: "n < 10 \<Longrightarrow> decimal n = [48 + n]"
  by (simp add: decimal.simps)

lemma decimal_step: "\<not> n < 10 \<Longrightarrow> decimal n = decimal (n div 10) @ [48 + n mod 10]"
  by (subst decimal.simps) simp

lemma hex_small: "n < 16 \<Longrightarrow> hex n = [hexdigit n]"
  by (simp add: hex.simps)

lemma hex_step: "\<not> n < 16 \<Longrightarrow> hex n = hex (n div 16) @ [hexdigit (n mod 16)]"
  by (subst hex.simps) simp

lemma eui64_local: "eui64 [2, a, b, c, d, e] = [512 + a, 256 * b + 255, 65024 + c, 256 * d + e]"
  by (simp add: eui64_def)

lemma ipv6_text_link_local:
  assumes "g4 \<noteq> 0" "g5 \<noteq> 0" "g6 \<noteq> 0"
  shows "ipv6_text [0xfe80, 0, 0, 0, g4, g5, g6, g7]
         = lit ''fe80::'' @ hex g4 @ lit '':'' @ hex g5 @ lit '':'' @ hex g6 @ lit '':'' @ hex g7"
proof -
  have f: "hex 0xfe80 = lit ''fe80''"
    by (simp add: hex_small hex_step hexdigit_def lit_def)
  have "zero_scan [0xfe80, 0, 0, 0, g4, g5, g6, g7] 0 0 (0, 0) = (1, 3)"
    using assms by (cases "g7 = 0") simp_all
  then show ?thesis
    by (simp add: ipv6_text_def f) (simp add: lit_def)
qed

lemma re_sub_prefixlen_last:
  assumes "47 \<notin> set t" "ds \<noteq> []" "list_all is_digit ds"
  shows "re_sub_prefixlen repl (t @ 47 # ds) = t @ repl"
  using assms
proof (induction t)
  case Nil
  then have tw: "takeWhile is_digit ds = ds" and dw: "dropWhile is_digit ds = []"
    by (simp_all add: list_all_iff)
  from Nil(2) show ?case by (simp add: re_sub_prefixlen.simps tw dw)
next
  case (Cons c t)
  then show ?case by (simp add: re_sub_prefixlen.simps)
qed

lemma decimal_10: "decimal 10 = lit ''10''"
  by (simp add: decimal_small decimal_step lit_def)

lemma decimal_128: "decimal 128 = lit ''128''"
  by (simp add: decimal_small decimal_step lit_def)

lemma md5_shape: "\<exists>b0 b1 b2 b3 b4 rest. md5 m = b0 # b1 # b2 # b3 # b4 # rest \<and> length rest = 11"
  by (simp add: md5_def word_le_bytes_def split: prod.split)

lemma link_local_text_no_slash: "47 \<notin> set (link_local_text h)"
  by (simp add: link_local_text_def hex_no_slash) (simp add: lit_def)

lemma mac2eui64_of_digest:
  assumes "h = b0 # b1 # b2 # b3 # b4 # rest"
  shows "mac2eui64 (join (lit '':'') (lit ''02'' # take 5 (wrap (hexdigest h) 2))) fe80_slash_10
         = Inr (link_local_text h @ lit ''/10'')"
proof -
  have "take 5 (wrap (hexdigest h) 2) = [hex2 b0, hex2 b1, hex2 b2, hex2 b3, hex2 b4]"
    by (simp add: wrap_hexdigest assms)
  then have "parse_mac (join (lit '':'') (lit ''02'' # take 5 (wrap (hexdigest h) 2)))
             = Some [2, unat b0, unat b1, unat b2, unat b3, unat b4]"
    by (simp only: parse_mac_joined)
  moreover have "ipv6_text [0xfe80, 0, 0, 0, 512 + unat b0, 256 * unat b1 + 255, 65024 + unat b2,
                   256 * unat b3 + unat b4] = link_local_text h"
    by (subst ipv6_text_link_local) (simp_all add: link_local_text_def assms)
  ultimately show ?thesis
    by (simp add: mac2eui64_def fe80_slash_10_def eui64_local decimal_10) (simp add: lit_def)
qed

lemma lladdr_closed:
  assumes "ascii (public_key self)"
  shows "lladdr self = Inr (link_local_text (md5 (map of_nat (public_key self) @ [0x0A])) @ lit ''/128'')"
proof -
  obtain b0 b1 b2 b3 b4 rest
    where h: "md5 (map of_nat (public_key self) @ [0x0A]) = b0 # b1 # b2 # b3 # b4 # rest"
    using md5_shape by blast
  have r: "re_sub_prefixlen (lit ''/128'') (link_local_text h @ lit ''/10'')
           = link_local_text h @ lit ''/128''" for h
    using re_sub_prefixlen_last [of "link_local_text h" "lit ''10''" "lit ''/128''"]
    by (simp add: link_local_text_no_slash) (simp add: lit_def is_digit_def)
  show ?thesis
    using assms by (simp add: lladdr_def encode_ascii_def ascii_def Let_def mac2eui64_of_digest [OF h] r)
qed


lemma utf8_code_point_ascii: "c < 128 \<Longrightarrow> utf8_code_point c = [c]"
  by (simp add: utf8_code_point_def)

lemma encode_utf8_ascii: "ascii s \<Longrightarrow> encode_utf8 s = map of_nat s"
proof (induction s)
  case Nil
  show ?case by (simp add: encode_utf8_def)
next
  case (Cons c s)
  then show ?case by (simp add: encode_utf8_def ascii_def utf8_code_point_ascii)
qed

lemma deriveLinkLocalAddress_closed:
  "deriveLinkLocalAddress k = link_local_text (md5 (encode_utf8 k @ [0x0A])) @ lit ''/128''"
proof -
  obtain b0 b1 b2 b3 b4 rest
    where h: "md5 (encode_utf8 k @ [0x0A]) = b0 # b1 # b2 # b3 # b4 # rest"
    using md5_shape by blast
  have "ipv6_text [0xfe80, 0, 0, 0, 512 + unat b0, 256 * unat b1 + 255, 65024 + unat b2,
          256 * unat b3 + unat b4] = link_local_text (b0 # b1 # b2 # b3 # b4 # rest)"
    by (subst ipv6_text_link_local) (simp_all add: link_local_text_def)
  then show ?thesis
    by (simp add: deriveLinkLocalAddress_def Let_def h fe80_slash_10_def eui64_local decimal_128)
      (simp add: lit_def)
qed

lemma md5_public_key:
  "md5 (map of_nat (lit ''public_key'') @ [0x0A])
   = [130, 110, 157, 236, 211, 123, 53, 164, 150, 75, 88, 111, 151, 17, 239, 211]"
  by code_simp

lemma ascii_public_key: "ascii (lit ''public_key'')"
  by (simp add: ascii_def lit_def)

lemma lladdr_public_key:
  "public_key self = lit ''public_key'' \<Longrightarrow> lladdr self = Inr (lit ''fe80::282:6eff:fe9d:ecd3/128'')"
  by (simp add: lladdr_closed ascii_public_key md5_public_key link_local_text_def hex_small hex_step
      hexdigit_def) (simp add: lit_def)

section \<open>The claims\<close>

text \<open>
  Claim C1, as amended. For every public key made of ASCII characters only, \<open>lladdr\<close>
  returns the address of the reference derivation: the MD5 hash of the key's bytes and one
  newline, the six-octet address 02 and the first five octets of the hash, its modified
  EUI-64 address under fe80::/10, with the prefix length forced to 128. The result is a
  function of the key alone, and it is an address text without a slash followed by
  \<open>/128\<close>. (For a key with a character from U+0080 on, \<open>lladdr\<close> raises, where the
  reference derivation hashes the key's UTF-8 bytes.)
\<close>

theorem lladdr_refines_derivation:
  assumes "ascii (public_key self)"
  shows "lladdr self = Inr (deriveLinkLocalAddress (public_key self))
         \<and> deriveLinkLocalAddress (public_key self)
             = link_local_text (md5 (encode_utf8 (public_key self) @ [0x0A])) @ lit ''/128''
         \<and> 47 \<notin> set (link_local_text (md5 (encode_utf8 (public_key self) @ [0x0A])))"
  using assms
  by (simp add: lladdr_closed deriveLinkLocalAddress_closed encode_utf8_ascii link_local_text_no_slash)

text \<open>The key \<open>public_key\<close> has the address fe80::282:6eff:fe9d:ecd3/128.\<close>

theorem lladdr_refines_derivation_witness:
  "ascii (lit ''public_key'')
   \<and> lladdr \<lparr>public_key = lit ''public_key'', domain = lit ''ffmuc'', remove = False\<rparr>
       = Inr (deriveLinkLocalAddress (lit ''public_key''))
   \<and> deriveLinkLocalAddress (lit ''public_key'') = lit ''fe80::282:6eff:fe9d:ecd3/128''"
proof -
  have a: "ascii (public_key \<lparr>public_key = lit ''public_key'', domain = lit ''ffmuc'', remove = False\<rparr>)"
    by (simp add: ascii_public_key)
  have "lladdr \<lparr>public_key = lit ''public_key'', domain = lit ''ffmuc'', remove = False\<rparr>
        = Inr (lit ''fe80::282:6eff:fe9d:ecd3/128'')"
    by (simp add: lladdr_public_key)
  with lladdr_refines_derivation [OF a] show ?thesis
    by (simp add: ascii_public_key)
qed

text \<open>Claim C1 as it is stated fails for the key \<open>\<acute>e\<close> (U+00E9): \<^verbatim>\<open>encode("ascii")\<close>
  raises.\<close>

theorem lladdr_refines_derivation_counterexample:
  "lladdr \<lparr>public_key = [233], domain = lit ''ffmuc'', remove = False\<rparr>
   \<noteq> Inr (deriveLinkLocalAddress [233])"
  by (simp add: lladdr_def encode_ascii_def)

text \<open>
  Claim C7, as amended. For every public key made of ASCII characters only, \<open>lladdr\<close>
  returns an address and raises nothing; for every other key it raises
  UnicodeEncodeError.
\<close>

theorem lladdr_total_on_ascii:
  "(ascii (public_key self) \<longrightarrow> (\<exists>address. lladdr self = Inr address))
   \<and> (\<not> ascii (public_key self) \<longrightarrow> lladdr self = Inl UnicodeEncodeError)"
  by (simp add: lladdr_closed) (simp add: lladdr_def encode_ascii_def ascii_def)

theorem lladdr_total_on_ascii_witness:
  "ascii (lit ''public_key'')
   \<and> (\<exists>address. lladdr \<lparr>public_key = lit ''public_key'', domain = lit ''ffmuc'', remove = True\<rparr>
         = Inr address)"
  using lladdr_total_on_ascii [of "\<lparr>public_key = lit ''public_key'', domain = lit ''ffmuc'', remove = True\<rparr>"]
  by (simp add: ascii_public_key)

text \<open>Claim C7 as it is stated fails for the text \<open>key\<close> followed by U+1F511.\<close>

theorem lladdr_fails_counterexample:
  "lladdr \<lparr>public_key = lit ''key'' @ [128273], domain = lit ''ffmuc'', remove = False\<rparr>
   = Inl UnicodeEncodeError"
  by (simp add: lladdr_def encode_ascii_def lit_def)

end
